theory Spec2Isabelle
  imports Main "HOL-Library.Word"
begin

section \<open>spigo: the command-line controller \<open>main\<close> of \<open>spigo.go\<close>\<close>

text \<open>
  The source file holds one function, \<open>main\<close>. It registers the command-line flags, parses
  them, fills the process-wide configuration \<open>archaius.Conf\<close>, launches the recorder
  (\<open>edda\<close>), runs the selected architecture and shuts the recorder down.

  The embedding is state passing: every statement of \<open>main\<close> is a function on the record
  \<open>state\<close>, which holds the package variables that \<open>main\<close> reads and writes, and the
  \<open>trace\<close> of the calls that \<open>main\<close> has made to its collaborators, in program order.
  \<open>log.Fatal\<close> and a failing \<open>flag.Parse\<close> end the process; a function that can end the
  process returns \<open>Inl\<close> of the state at that point, and \<open>Inr\<close> when execution goes on.

  Everything that \<open>main\<close> takes from outside is a field of the record \<open>environment\<close>: the
  command line, the number of CPUs, the process environment, and the results of the
  collaborator functions whose result \<open>main\<close> looks at. A call event in the trace stands
  for a call that has returned; \<open>go f()\<close> is the event of executing the \<open>go\<close> statement.
\<close>

subsection \<open>Data\<close>

text \<open>Go's \<open>int\<close> on a 64-bit platform, and \<open>time.Duration\<close> (an \<open>int64\<close> count of nanoseconds).\<close>

type_synonym go_int = "64 word"
type_synonym time_Duration = "64 word"

definition time_Second :: time_Duration where
  "time_Second = 1000000000"

text \<open>The fields of \<open>archaius.Conf\<close> that \<open>main\<close> writes or reads.\<close>

record configuration =
  Arch :: string
  Population :: go_int
  Regions :: go_int
  Msglog :: bool
  Collect_flag :: bool
  Measure :: bool
  StopStep :: go_int
  EurekaPoll :: string
  Keyvals :: string
  Filter_flag :: bool
  Kafka :: "string list"
  GraphjsonFile :: string
  GraphmlFile :: string
  Neo4jURL :: string
  RunDuration :: time_Duration

text \<open>A buffered channel, as far as \<open>main\<close> is concerned: its capacity and whether it is closed.\<close>

record chan =
  capacity :: nat
  closed :: bool

text \<open>The calls \<open>main\<close> makes, with the arguments it passes.\<close>

datatype 'a event =
    runtime_GOMAXPROCS go_int
  | flag_Parse_call
  | flag_usage_exit
  | archaius_ReadConf string
  | os_Create_call string
  | pprof_StartCPUProfile
  | pprof_StopCPUProfile
  | collect_Serve nat
  | log_Println string
  | log_Fatal string
  | make_Logchan nat
  | archaius_WriteConf
  | go_http_ListenAndServe string
  | go_edda_Start string
  | asgard_Reload string
  | asgard_Run string
  | fsm_Start
  | migration_Start
  | architecture_ReadArch string
  | architecture_Start 'a
  | close_Logchan
  | edda_Wg_Wait
  | flow_Shutdown

text \<open>
  The package variables of \<open>main\<close> (lines 28 to 30), the three flag pointers of lines 52 to
  54, \<open>archaius.Conf\<close>, \<open>edda.Logchan\<close> (\<open>None\<close> is the nil channel), the deferred calls and
  the trace.
\<close>

record 'a state =
  Conf :: configuration
  addrs :: string
  reload :: bool
  graphmlEnabled :: bool
  graphjsonEnabled :: bool
  neo4jEnabled :: bool
  duration :: go_int
  cpucount :: go_int
  cpuprofile :: string
  confFile :: string
  saveConfFile :: bool
  Logchan :: "chan option"
  deferred :: "'a event list"
  trace :: "'a event list"

text \<open>
  A value given to a flag on the command line, after \<open>flag\<close> has converted it to the
  flag's type. The command line is the list of the flag settings in the order given.
\<close>

datatype flag_value = S string | I go_int | B bool

text \<open>
  What \<open>main\<close> takes from outside. \<open>archaius.Conf\<close> and \<open>edda.Logchan\<close> are declared in
  packages that are not part of the source file, so their values when \<open>main\<close> starts are
  parameters, as are the effect of \<open>archaius.ReadConf\<close> on the configuration and the
  results of \<open>os.Create\<close> (\<open>Some\<close> of the error) and \<open>architecture.ReadArch\<close> (\<open>None\<close> is nil).
\<close>

record 'a environment =
  args :: "(string \<times> flag_value) list"
  NumCPU :: go_int
  environ :: "string \<rightharpoonup> string"
  initial_Conf :: configuration
  initial_Logchan :: "chan option"
  ReadConf :: "string \<Rightarrow> configuration \<Rightarrow> configuration"
  os_Create :: "string \<Rightarrow> string option"
  ReadArch :: "string \<Rightarrow> 'a option"

subsection \<open>Library calls\<close>

definition emit :: "'a event \<Rightarrow> 'a state \<Rightarrow> 'a state" where
  "emit e s = s\<lparr>trace := trace s @ [e]\<rparr>"

text \<open>\<open>os.Getenv\<close>: the value of the variable, empty when the variable is not present.\<close>

definition os_Getenv :: "'a environment \<Rightarrow> string \<Rightarrow> string" where
  "os_Getenv env key = (case environ env key of None \<Rightarrow> [] | Some v \<Rightarrow> v)"

text \<open>
  \<open>strings.Split(s, sep)\<close> for a one-byte separator: the pieces of \<open>s\<close> between the
  separators, one more than there are separators (so the empty string gives one empty piece).
\<close>

fun strings_Split :: "string \<Rightarrow> char \<Rightarrow> string list" where
  "strings_Split [] sep = [[]]"
| "strings_Split (c # cs) sep =
     (if c = sep then [] # strings_Split cs sep
      else (case strings_Split cs sep of
              [] \<Rightarrow> [[c]]
            | w # ws \<Rightarrow> (c # w) # ws))"

subsection \<open>Flags (lines 34 to 55)\<close>

text \<open>
  \<open>flag.StringVar\<close>, \<open>flag.IntVar\<close> and \<open>flag.BoolVar\<close> store the default in the variable when
  the flag is registered. Lines 34 to 50:
\<close>

definition flag_vars :: "'a environment \<Rightarrow> 'a state \<Rightarrow> 'a state" where
  "flag_vars env s =
     s\<lparr>Conf := (Conf s)\<lparr>Arch := ''netflixoss'', Population := 100, Regions := 1,
                         Msglog := False, Collect_flag := False, Measure := False,
                         StopStep := 0, EurekaPoll := ''1s'', Keyvals := [],
                         Filter_flag := False\<rparr>,
       duration := 10, graphmlEnabled := False, graphjsonEnabled := False,
       neo4jEnabled := False, reload := False, addrs := [],
       cpucount := NumCPU env\<rparr>"

text \<open>Lines 52 to 54: \<open>flag.String\<close> and \<open>flag.Bool\<close> allocate the variable.\<close>

definition flag_pointers :: "'a state \<Rightarrow> 'a state" where
  "flag_pointers s = s\<lparr>cpuprofile := [], confFile := [], saveConfFile := False\<rparr>"

text \<open>
  One setting of the command line: the flag's variable is assigned. A name that is not
  registered, or a value that is not of the flag's type, is an error (\<open>None\<close>).
\<close>

definition flag_Set :: "string \<Rightarrow> flag_value \<Rightarrow> 'a state \<Rightarrow> 'a state option" where
  "flag_Set name v s =
     (if name = ''a'' then
        (case v of S x \<Rightarrow> Some (s\<lparr>Conf := (Conf s)\<lparr>Arch := x\<rparr>\<rparr>) | _ \<Rightarrow> None)
      else if name = ''p'' then
        (case v of I n \<Rightarrow> Some (s\<lparr>Conf := (Conf s)\<lparr>Population := n\<rparr>\<rparr>) | _ \<Rightarrow> None)
      else if name = ''d'' then
        (case v of I n \<Rightarrow> Some (s\<lparr>duration := n\<rparr>) | _ \<Rightarrow> None)
      else if name = ''w'' then
        (case v of I n \<Rightarrow> Some (s\<lparr>Conf := (Conf s)\<lparr>Regions := n\<rparr>\<rparr>) | _ \<Rightarrow> None)
      else if name = ''g'' then
        (case v of B b \<Rightarrow> Some (s\<lparr>graphmlEnabled := b\<rparr>) | _ \<Rightarrow> None)
      else if name = ''j'' then
        (case v of B b \<Rightarrow> Some (s\<lparr>graphjsonEnabled := b\<rparr>) | _ \<Rightarrow> None)
      else if name = ''n'' then
        (case v of B b \<Rightarrow> Some (s\<lparr>neo4jEnabled := b\<rparr>) | _ \<Rightarrow> None)
      else if name = ''m'' then
        (case v of B b \<Rightarrow> Some (s\<lparr>Conf := (Conf s)\<lparr>Msglog := b\<rparr>\<rparr>) | _ \<Rightarrow> None)
      else if name = ''r'' then
        (case v of B b \<Rightarrow> Some (s\<lparr>reload := b\<rparr>) | _ \<Rightarrow> None)
      else if name = ''c'' then
        (case v of B b \<Rightarrow> Some (s\<lparr>Conf := (Conf s)\<lparr>Collect_flag := b\<rparr>\<rparr>) | _ \<Rightarrow> None)
      else if name = ''h'' then
        (case v of B b \<Rightarrow> Some (s\<lparr>Conf := (Conf s)\<lparr>Measure := b\<rparr>\<rparr>) | _ \<Rightarrow> None)
      else if name = ''k'' then
        (case v of S x \<Rightarrow> Some (s\<lparr>addrs := x\<rparr>) | _ \<Rightarrow> None)
      else if name = ''s'' then
        (case v of I n \<Rightarrow> Some (s\<lparr>Conf := (Conf s)\<lparr>StopStep := n\<rparr>\<rparr>) | _ \<Rightarrow> None)
      else if name = ''u'' then
        (case v of S x \<Rightarrow> Some (s\<lparr>Conf := (Conf s)\<lparr>EurekaPoll := x\<rparr>\<rparr>) | _ \<Rightarrow> None)
      else if name = ''kv'' then
        (case v of S x \<Rightarrow> Some (s\<lparr>Conf := (Conf s)\<lparr>Keyvals := x\<rparr>\<rparr>) | _ \<Rightarrow> None)
      else if name = ''f'' then
        (case v of B b \<Rightarrow> Some (s\<lparr>Conf := (Conf s)\<lparr>Filter_flag := b\<rparr>\<rparr>) | _ \<Rightarrow> None)
      else if name = ''cpus'' then
        (case v of I n \<Rightarrow> Some (s\<lparr>cpucount := n\<rparr>) | _ \<Rightarrow> None)
      else if name = ''cpuprofile'' then
        (case v of S x \<Rightarrow> Some (s\<lparr>cpuprofile := x\<rparr>) | _ \<Rightarrow> None)
      else if name = ''config'' then
        (case v of S x \<Rightarrow> Some (s\<lparr>confFile := x\<rparr>) | _ \<Rightarrow> None)
      else if name = ''saveconfig'' then
        (case v of B b \<Rightarrow> Some (s\<lparr>saveConfFile := b\<rparr>) | _ \<Rightarrow> None)
      else None)"

text \<open>
  \<open>flag.Parse()\<close> takes the settings in order; at the first error it prints the usage and
  ends the process, the earlier settings having been made.
\<close>

fun flag_Parse_args :: "(string \<times> flag_value) list \<Rightarrow> 'a state \<Rightarrow> 'a state + 'a state" where
  "flag_Parse_args [] s = Inr s"
| "flag_Parse_args ((name, v) # rest) s =
     (case flag_Set name v s of
        None \<Rightarrow> Inl (emit flag_usage_exit s)
      | Some s' \<Rightarrow> flag_Parse_args rest s')"

definition flag_Parse :: "'a environment \<Rightarrow> 'a state \<Rightarrow> 'a state + 'a state" where
  "flag_Parse env s = flag_Parse_args (args env) (emit flag_Parse_call s)"

subsection \<open>The body of \<open>main\<close>\<close>

text \<open>The state in which \<open>main\<close> starts: its own package variables have Go's zero values.\<close>

definition initial_state :: "'a environment \<Rightarrow> 'a state" where
  "initial_state env =
     \<lparr>Conf = initial_Conf env, addrs = [], reload = False, graphmlEnabled = False,
      graphjsonEnabled = False, neo4jEnabled = False, duration = 0, cpucount = 0,
      cpuprofile = [], confFile = [], saveConfFile = False,
      Logchan = initial_Logchan env, deferred = [], trace = []\<rparr>"

text \<open>Lines 34 to 55.\<close>

definition parse_flags :: "'a environment \<Rightarrow> 'a state + 'a state" where
  "parse_flags env =
     (let s1 = flag_vars env (initial_state env);
          s2 = emit (runtime_GOMAXPROCS (cpucount s1)) s1;
          s3 = flag_pointers s2
      in flag_Parse env s3)"

text \<open>Lines 58 to 62, the loop over \<open>kafkaAddrs\<close>.\<close>

fun range_kafkaAddrs :: "string list \<Rightarrow> 'a state \<Rightarrow> 'a state" where
  "range_kafkaAddrs [] s = s"
| "range_kafkaAddrs (addr # rest) s =
     range_kafkaAddrs rest
       (if length addr > 0 then s\<lparr>Conf := (Conf s)\<lparr>Kafka := Kafka (Conf s) @ [addr]\<rparr>\<rparr>
        else s)"

text \<open>Lines 57 to 62.\<close>

definition kafka_addresses :: "'a state \<Rightarrow> 'a state" where
  "kafka_addresses s = range_kafkaAddrs (strings_Split (addrs s) CHR '','') s"

text \<open>Lines 64 to 66.\<close>

definition read_config :: "'a environment \<Rightarrow> 'a state \<Rightarrow> 'a state" where
  "read_config env s =
     (if confFile s \<noteq> [] then
        emit (archaius_ReadConf (confFile s)) (s\<lparr>Conf := ReadConf env (confFile s) (Conf s)\<rparr>)
      else s)"

text \<open>Lines 67 to 74. The deferred call runs when \<open>main\<close> returns, not when the process exits.\<close>

definition cpu_profile :: "'a environment \<Rightarrow> 'a state \<Rightarrow> 'a state + 'a state" where
  "cpu_profile env s =
     (if cpuprofile s \<noteq> [] then
        (let s1 = emit (os_Create_call (cpuprofile s)) s in
         case os_Create env (cpuprofile s) of
           Some err \<Rightarrow> Inl (emit (log_Fatal err) s1)
         | None \<Rightarrow>
             Inr ((emit pprof_StartCPUProfile s1)
                    \<lparr>deferred := pprof_StopCPUProfile # deferred s1\<rparr>))
      else Inr s)"

text \<open>Lines 75 to 77.\<close>

definition collect_flows :: "'a state \<Rightarrow> 'a state" where
  "collect_flows s = (if Collect_flag (Conf s) then emit (collect_Serve 8123) s else s)"

text \<open>Lines 85 to 100.\<close>

definition neo4j_setup :: "'a environment \<Rightarrow> 'a state \<Rightarrow> 'a state + 'a state" where
  "neo4j_setup env s =
     (if neo4jEnabled s then
        (if Filter_flag (Conf s) then
           Inl (emit (log_Fatal ''Neo4j cannot be used with filtered names option -f'') s)
         else
           (let pw = os_Getenv env ''NEO4JPASSWORD'';
                url = os_Getenv env ''NEO4JURL''
            in if pw = [] then
                 Inl (emit (log_Fatal
                        ''Neo4j requires environment variable NEO4JPASSWORD is set'') s)
               else
                 (let s1 = (if url = [] then s\<lparr>Conf := (Conf s)\<lparr>Neo4jURL := ''localhost:7474''\<rparr>\<rparr>
                            else s\<lparr>Conf := (Conf s)\<lparr>Neo4jURL := url\<rparr>\<rparr>)
                  in Inr (emit (log_Println
                        (''Graph will be written to Neo4j via NEO4JURL='' @ Neo4jURL (Conf s1)))
                        s1))))
      else Inr s)"

text \<open>Lines 78 to 103.\<close>

definition graph_export :: "'a environment \<Rightarrow> 'a state \<Rightarrow> 'a state + 'a state" where
  "graph_export env s =
     (if graphjsonEnabled s \<or> graphmlEnabled s \<or> neo4jEnabled s then
        (let s1 = (if graphjsonEnabled s
                   then s\<lparr>Conf := (Conf s)\<lparr>GraphjsonFile := Arch (Conf s)\<rparr>\<rparr> else s);
             s2 = (if graphmlEnabled s1
                   then s1\<lparr>Conf := (Conf s1)\<lparr>GraphmlFile := Arch (Conf s1)\<rparr>\<rparr> else s1)
         in case neo4j_setup env s2 of
              Inl x \<Rightarrow> Inl x
            | Inr s3 \<Rightarrow>
                Inr (emit (make_Logchan 1000)
                       (s3\<lparr>Logchan := Some \<lparr>capacity = 1000, closed = False\<rparr>\<rparr>)))
      else Inr s)"

text \<open>Lines 104 to 112.\<close>

definition run_duration :: "'a state \<Rightarrow> 'a state" where
  "run_duration s =
     (let s1 = s\<lparr>Conf := (Conf s)\<lparr>RunDuration := duration s * time_Second\<rparr>\<rparr>;
          s2 = (if saveConfFile s1 then emit archaius_WriteConf s1 else s1)
      in emit (go_http_ListenAndServe '':8124'') s2)"

text \<open>Lines 34 to 112: everything before the comment "start up the selected architecture".\<close>

definition configure :: "'a environment \<Rightarrow> 'a state + 'a state" where
  "configure env =
     (case parse_flags env of
        Inl x \<Rightarrow> Inl x
      | Inr s \<Rightarrow>
          (case cpu_profile env (read_config env (kafka_addresses s)) of
             Inl x \<Rightarrow> Inl x
           | Inr s1 \<Rightarrow>
               (case graph_export env (collect_flows s1) of
                  Inl x \<Rightarrow> Inl x
                | Inr s2 \<Rightarrow> Inr (run_duration s2))))"

text \<open>Lines 115 to 132.\<close>

definition start_architecture :: "'a environment \<Rightarrow> 'a state \<Rightarrow> 'a state + 'a state" where
  "start_architecture env s0 =
     (let s = emit (go_edda_Start (Arch (Conf s0) @ ''.edda'')) s0 in
      if reload s then
        Inr (emit (asgard_Run []) (emit (asgard_Reload (Arch (Conf s))) s))
      else if Arch (Conf s) = ''fsm'' then Inr (emit fsm_Start s)
      else if Arch (Conf s) = ''migration'' then Inr (emit migration_Start s)
      else
        (let s1 = emit (architecture_ReadArch (Arch (Conf s))) s in
         case ReadArch env (Arch (Conf s)) of
           None \<Rightarrow>
             Inl (emit (log_Fatal (''Architecture '' @ Arch (Conf s) @ '' isn't recognized'')) s1)
         | Some a \<Rightarrow> Inr (emit (architecture_Start a) s1)))"

text \<open>Lines 133 to 139, and the deferred calls that run as \<open>main\<close> returns.\<close>

definition shutdown :: "'a state \<Rightarrow> 'a state" where
  "shutdown s =
     (let s1 = emit (log_Println ''spigo: complete'') s;
          s2 = (case Logchan s1 of
                  None \<Rightarrow> s1
                | Some c \<Rightarrow> emit close_Logchan (s1\<lparr>Logchan := Some (c\<lparr>closed := True\<rparr>)\<rparr>));
          s3 = emit edda_Wg_Wait s2;
          s4 = emit flow_Shutdown s3
      in s4\<lparr>trace := trace s4 @ deferred s4, deferred := []\<rparr>)"

definition main :: "'a environment \<Rightarrow> 'a state + 'a state" where
  "main env =
     (case configure env of
        Inl x \<Rightarrow> Inl x
      | Inr s \<Rightarrow>
          (case start_architecture env s of
             Inl x \<Rightarrow> Inl x
           | Inr s1 \<Rightarrow> Inr (shutdown s1)))"

subsection \<open>Observations on a run\<close>

text \<open>The state in which the process ended, whether \<open>main\<close> returned or the process exited.\<close>

definition final :: "'a state + 'a state \<Rightarrow> 'a state" where
  "final r = (case r of Inl s \<Rightarrow> s | Inr s \<Rightarrow> s)"

text \<open>The four calls that build and run a mesh.\<close>

fun is_architecture_run :: "'a event \<Rightarrow> bool" where
  "is_architecture_run (asgard_Run g) = True"
| "is_architecture_run fsm_Start = True"
| "is_architecture_run migration_Start = True"
| "is_architecture_run (architecture_Start a) = True"
| "is_architecture_run e = False"

fun is_GOMAXPROCS :: "'a event \<Rightarrow> bool" where
  "is_GOMAXPROCS (runtime_GOMAXPROCS n) = True"
| "is_GOMAXPROCS e = False"

text \<open>An environment with nothing on the command line and nothing in the process environment.\<close>

definition env0 :: "nat environment" where
  "env0 =
     \<lparr>args = [], NumCPU = 8, environ = Map.empty,
      initial_Conf = \<lparr>Arch = [], Population = 0, Regions = 0, Msglog = False,
                      Collect_flag = False, Measure = False, StopStep = 0, EurekaPoll = [],
                      Keyvals = [], Filter_flag = False, Kafka = [], GraphjsonFile = [],
                      GraphmlFile = [], Neo4jURL = [], RunDuration = 0\<rparr>,
      initial_Logchan = None,
      ReadConf = (\<lambda>file c. c),
      os_Create = (\<lambda>path. None),
      ReadArch = (\<lambda>arch. if arch = ''netflixoss'' then Some 1 else None)\<rparr>"

subsection \<open>Auxiliary notions for the proofs\<close>

text \<open>
  The events that lines 55 to 112 can add to the trace, the creation of the logging channel
  apart.
\<close>

fun quiet_event :: "'a event \<Rightarrow> bool" where
  "quiet_event flag_usage_exit = True"
| "quiet_event (archaius_ReadConf f) = True"
| "quiet_event (os_Create_call p) = True"
| "quiet_event pprof_StartCPUProfile = True"
| "quiet_event (collect_Serve n) = True"
| "quiet_event (log_Println m) = (m \<noteq> ''spigo: complete'')"
| "quiet_event (log_Fatal m) = True"
| "quiet_event archaius_WriteConf = True"
| "quiet_event (go_http_ListenAndServe a) = True"
| "quiet_event e = False"

text \<open>The condition of line 78.\<close>

abbreviation export_enabled :: "'a state \<Rightarrow> bool" where
  "export_enabled s \<equiv> graphjsonEnabled s \<or> graphmlEnabled s \<or> neo4jEnabled s"

text \<open>\<open>s'\<close> continues the trace of \<open>s\<close> with events that satisfy \<open>P\<close>.\<close>

definition appends :: "('a event \<Rightarrow> bool) \<Rightarrow> 'a state \<Rightarrow> 'a state \<Rightarrow> bool" where
  "appends P s s' = (\<exists>new. trace s' = trace s @ new \<and> list_all P new)"

text \<open>The flag variables of \<open>main\<close>, which nothing after \<open>flag.Parse\<close> assigns.\<close>

definition flags_of :: "'a state \<Rightarrow> string \<times> bool \<times> bool \<times> bool \<times> bool \<times> go_int \<times> go_int \<times> string \<times> string \<times> bool" where
  "flags_of s = (addrs s, reload s, graphmlEnabled s, graphjsonEnabled s, neo4jEnabled s,
                 duration s, cpucount s, cpuprofile s, confFile s, saveConfFile s)"

section \<open>Properties\<close>

subsection \<open>Traces\<close>

lemma appends_refl: "appends P s s"
  by (simp add: appends_def)

lemma appends_trans: "appends P s s1 \<Longrightarrow> appends P s1 s2 \<Longrightarrow> appends P s s2"
  by (auto simp: appends_def)

lemma appends_emit: "P e \<Longrightarrow> appends P s (emit e s)"
  by (simp add: appends_def emit_def)

lemma appends_same_trace: "trace s' = trace s \<Longrightarrow> appends P s s'"
  by (simp add: appends_def)

lemma range_kafkaAddrs_eq:
  "range_kafkaAddrs xs s =
     s\<lparr>Conf := (Conf s)\<lparr>Kafka := Kafka (Conf s) @ filter (\<lambda>addr. addr \<noteq> []) xs\<rparr>\<rparr>"
  by (induction xs arbitrary: s) simp_all

lemma kafka_addresses_eq:
  "kafka_addresses s =
     s\<lparr>Conf := (Conf s)\<lparr>Kafka := Kafka (Conf s) @
         filter (\<lambda>addr. addr \<noteq> []) (strings_Split (addrs s) CHR '','')\<rparr>\<rparr>"
  by (simp add: kafka_addresses_def range_kafkaAddrs_eq)

lemma flag_Set_frame:
  "flag_Set name v s = Some s' \<Longrightarrow>
     trace s' = trace s \<and> Logchan s' = Logchan s \<and> deferred s' = deferred s"
  by (auto simp: flag_Set_def split: if_splits flag_value.splits)

lemma flag_Parse_args_Inr:
  "flag_Parse_args as s = Inr s' \<Longrightarrow>
     trace s' = trace s \<and> Logchan s' = Logchan s \<and> deferred s' = deferred s"
  by (induction as arbitrary: s) (auto split: option.splits dest: flag_Set_frame)

lemma flag_Parse_args_Inl:
  "flag_Parse_args as s = Inl s' \<Longrightarrow>
     trace s' = trace s @ [flag_usage_exit] \<and> Logchan s' = Logchan s \<and> deferred s' = deferred s"
  by (induction as arbitrary: s) (auto simp: emit_def split: option.splits dest: flag_Set_frame)

lemma parse_flags_Inr:
  "parse_flags env = Inr s \<Longrightarrow>
     trace s = [runtime_GOMAXPROCS (NumCPU env), flag_Parse_call] \<and>
     Logchan s = initial_Logchan env \<and> deferred s = []"
  by (auto simp: parse_flags_def flag_Parse_def Let_def emit_def flag_vars_def
        flag_pointers_def initial_state_def dest!: flag_Parse_args_Inr)

lemma parse_flags_Inl:
  "parse_flags env = Inl s \<Longrightarrow>
     trace s = [runtime_GOMAXPROCS (NumCPU env), flag_Parse_call, flag_usage_exit] \<and>
     Logchan s = initial_Logchan env \<and> deferred s = []"
  by (auto simp: parse_flags_def flag_Parse_def Let_def emit_def flag_vars_def
        flag_pointers_def initial_state_def dest!: flag_Parse_args_Inl)

lemma read_config_frame:
  "appends quiet_event s (read_config env s) \<and>
   flags_of (read_config env s) = flags_of s \<and>
   Logchan (read_config env s) = Logchan s \<and> deferred (read_config env s) = deferred s"
  by (simp add: read_config_def appends_def emit_def flags_of_def)

lemma kafka_addresses_frame:
  "trace (kafka_addresses s) = trace s \<and>
   flags_of (kafka_addresses s) = flags_of s \<and>
   Logchan (kafka_addresses s) = Logchan s \<and> deferred (kafka_addresses s) = deferred s"
  by (simp add: kafka_addresses_eq flags_of_def)

lemma cpu_profile_frame:
  "appends quiet_event s (final (cpu_profile env s)) \<and>
   flags_of (final (cpu_profile env s)) = flags_of s \<and>
   Logchan (final (cpu_profile env s)) = Logchan s \<and>
   Conf (final (cpu_profile env s)) = Conf s"
  by (simp add: cpu_profile_def appends_def emit_def flags_of_def final_def Let_def
        split: option.splits)

lemma cpu_profile_deferred:
  "cpu_profile env s = Inr s' \<Longrightarrow>
     deferred s' = (if cpuprofile s = [] then deferred s else pprof_StopCPUProfile # deferred s)"
  by (auto simp: cpu_profile_def emit_def Let_def split: if_splits option.splits)

lemma collect_flows_frame:
  "appends quiet_event s (collect_flows s) \<and>
   flags_of (collect_flows s) = flags_of s \<and>
   Logchan (collect_flows s) = Logchan s \<and> deferred (collect_flows s) = deferred s \<and>
   Conf (collect_flows s) = Conf s"
  by (simp add: collect_flows_def appends_def emit_def flags_of_def)

lemma neo4j_setup_frame:
  "appends quiet_event s (final (neo4j_setup env s)) \<and>
   flags_of (final (neo4j_setup env s)) = flags_of s \<and>
   Logchan (final (neo4j_setup env s)) = Logchan s \<and>
   deferred (final (neo4j_setup env s)) = deferred s"
  by (simp add: neo4j_setup_def appends_def emit_def flags_of_def final_def Let_def)

lemma graph_export_Inr:
  "graph_export env s = Inr s' \<Longrightarrow>
     (\<exists>mid. trace s' = trace s @ mid @ (if export_enabled s then [make_Logchan 1000] else []) \<and>
            list_all quiet_event mid) \<and>
     Logchan s' = (if export_enabled s then Some \<lparr>capacity = 1000, closed = False\<rparr> else Logchan s) \<and>
     flags_of s' = flags_of s \<and> deferred s' = deferred s"
  by (auto simp: graph_export_def neo4j_setup_def emit_def flags_of_def Let_def
        split: if_splits sum.splits)

lemma graph_export_Inl:
  "graph_export env s = Inl s' \<Longrightarrow>
     appends quiet_event s s' \<and> Logchan s' = Logchan s \<and> flags_of s' = flags_of s \<and>
     deferred s' = deferred s"
  by (auto simp: graph_export_def neo4j_setup_def emit_def flags_of_def Let_def appends_def
        split: if_splits sum.splits)

lemma run_duration_frame:
  "appends quiet_event s (run_duration s) \<and>
   flags_of (run_duration s) = flags_of s \<and>
   Logchan (run_duration s) = Logchan s \<and> deferred (run_duration s) = deferred s \<and>
   RunDuration (Conf (run_duration s)) = duration s * time_Second"
  by (simp add: run_duration_def appends_def emit_def flags_of_def Let_def)

lemma configure_Inr_D:
  "configure env = Inr s \<Longrightarrow>
     \<exists>s1 s2 s3. parse_flags env = Inr s1 \<and>
        cpu_profile env (read_config env (kafka_addresses s1)) = Inr s2 \<and>
        graph_export env (collect_flows s2) = Inr s3 \<and> s = run_duration s3"
  by (auto simp: configure_def split: sum.splits)

lemma configure_Inr:
  assumes "configure env = Inr s"
  shows "\<exists>pre post. trace s = [runtime_GOMAXPROCS (NumCPU env), flag_Parse_call] @ pre @
            (if export_enabled s then [make_Logchan 1000] else []) @ post \<and>
            list_all quiet_event pre \<and> list_all quiet_event post"
    and "Logchan s = (if export_enabled s then Some \<lparr>capacity = 1000, closed = False\<rparr>
                      else initial_Logchan env)"
    and "deferred s = (if cpuprofile s = [] then [] else [pprof_StopCPUProfile])"
    and "RunDuration (Conf s) = duration s * time_Second"
proof -
  from assms obtain s1 s2 s3 where
    p: "parse_flags env = Inr s1" and
    c: "cpu_profile env (read_config env (kafka_addresses s1)) = Inr s2" and
    g: "graph_export env (collect_flows s2) = Inr s3" and
    s: "s = run_duration s3"
    using configure_Inr_D by blast
  let ?k = "read_config env (kafka_addresses s1)"
  let ?c = "collect_flows s2"
  note P = parse_flags_Inr [OF p]
  note K = kafka_addresses_frame [of s1]
  note R = read_config_frame [of "kafka_addresses s1" env]
  note C = cpu_profile_frame [of ?k env] cpu_profile_deferred [OF c]
  note F = collect_flows_frame [of s2]
  note G = graph_export_Inr [OF g]
  note D = run_duration_frame [of s3]
  have fl: "flags_of s = flags_of s1"
    using K R C F G D c by (simp add: s final_def)
  have en: "export_enabled ?c = export_enabled s"
    using G D by (simp add: s flags_of_def)
  show "Logchan s = (if export_enabled s then Some \<lparr>capacity = 1000, closed = False\<rparr>
                      else initial_Logchan env)"
    using P K R C F G D c en by (simp add: s final_def)
  show "deferred s = (if cpuprofile s = [] then [] else [pprof_StopCPUProfile])"
    using P K R C F G D c fl by (simp add: s final_def flags_of_def)
  show "RunDuration (Conf s) = duration s * time_Second"
    using D by (simp add: s flags_of_def)
  have "appends quiet_event s1 (kafka_addresses s1)"
    using K by (simp add: appends_same_trace)
  moreover have "appends quiet_event (kafka_addresses s1) ?k" using R by simp
  moreover have "appends quiet_event ?k s2" using C c by (simp add: final_def)
  moreover have "appends quiet_event s2 ?c" using F by simp
  ultimately have "appends quiet_event s1 (collect_flows s2)"
    by (blast intro: appends_trans)
  then obtain pre where pre: "trace ?c = trace s1 @ pre" "list_all quiet_event pre"
    by (auto simp: appends_def)
  from G obtain mid where mid:
    "trace s3 = trace ?c @ mid @ (if export_enabled ?c then [make_Logchan 1000] else [])"
    "list_all quiet_event mid" by blast
  from D obtain post where post: "trace s = trace s3 @ post" "list_all quiet_event post"
    by (auto simp: appends_def s)
  have "trace s = [runtime_GOMAXPROCS (NumCPU env), flag_Parse_call] @ (pre @ mid) @
            (if export_enabled s then [make_Logchan 1000] else []) @ post"
    using pre mid post P en by simp
  moreover have "list_all quiet_event (pre @ mid)" using pre mid by simp
  ultimately show "\<exists>pre post. trace s = [runtime_GOMAXPROCS (NumCPU env), flag_Parse_call] @ pre @
            (if export_enabled s then [make_Logchan 1000] else []) @ post \<and>
            list_all quiet_event pre \<and> list_all quiet_event post"
    using post by blast
qed

lemma configure_Inl:
  assumes "configure env = Inl s"
  shows "\<exists>rest. trace s = [runtime_GOMAXPROCS (NumCPU env), flag_Parse_call] @ rest \<and>
            list_all quiet_event rest"
    and "Logchan s = initial_Logchan env"
proof -
  consider (p) "parse_flags env = Inl s"
    | (c) s1 where "parse_flags env = Inr s1"
        "cpu_profile env (read_config env (kafka_addresses s1)) = Inl s"
    | (g) s1 s2 where "parse_flags env = Inr s1"
        "cpu_profile env (read_config env (kafka_addresses s1)) = Inr s2"
        "graph_export env (collect_flows s2) = Inl s"
    using assms by (auto simp: configure_def split: sum.splits)
  then have "appends quiet_event
       (s\<lparr>trace := [runtime_GOMAXPROCS (NumCPU env), flag_Parse_call]\<rparr>) s
     \<and> Logchan s = initial_Logchan env"
  proof cases
    case p
    then show ?thesis using parse_flags_Inl [OF p] by (simp add: appends_def)
  next
    case c
    let ?k = "read_config env (kafka_addresses s1)"
    note P = parse_flags_Inr [OF c(1)]
    note K = kafka_addresses_frame [of s1]
    note R = read_config_frame [of "kafka_addresses s1" env]
    note C = cpu_profile_frame [of ?k env]
    have "appends quiet_event s1 (kafka_addresses s1)"
      using K by (simp add: appends_same_trace)
    moreover have "appends quiet_event (kafka_addresses s1) ?k" using R by simp
    moreover have "appends quiet_event ?k s" using C c(2) by (simp add: final_def)
    ultimately have "appends quiet_event s1 s"
      by (blast intro: appends_trans)
    then show ?thesis using P K R C c(2) by (simp add: appends_def final_def)
  next
    case g
    let ?k = "read_config env (kafka_addresses s1)"
    note P = parse_flags_Inr [OF g(1)]
    note K = kafka_addresses_frame [of s1]
    note R = read_config_frame [of "kafka_addresses s1" env]
    note C = cpu_profile_frame [of ?k env]
    note F = collect_flows_frame [of s2]
    note G = graph_export_Inl [OF g(3)]
    have "appends quiet_event s1 (kafka_addresses s1)"
      using K by (simp add: appends_same_trace)
    moreover have "appends quiet_event (kafka_addresses s1) ?k" using R by simp
    moreover have "appends quiet_event ?k s2" using C g(2) by (simp add: final_def)
    moreover have "appends quiet_event s2 (collect_flows s2)" using F by simp
    moreover have "appends quiet_event (collect_flows s2) s" using G by simp
    ultimately have "appends quiet_event s1 s"
      by (blast intro: appends_trans)
    then show ?thesis using P K R C F G g(2) by (simp add: appends_def final_def)
  qed
  then show "\<exists>rest. trace s = [runtime_GOMAXPROCS (NumCPU env), flag_Parse_call] @ rest \<and>
            list_all quiet_event rest"
    and "Logchan s = initial_Logchan env"
    by (auto simp: appends_def)
qed

subsection \<open>The Kafka address list\<close>

text \<open>
  \<open>strings_Split\<close> is \<open>strings.Split\<close>: no piece holds the separator, and the pieces, each
  behind a separator, make up the string behind a separator.
\<close>

lemma strings_Split_not_Nil: "strings_Split s sep \<noteq> []"
  by (induction s) (auto split: list.splits)

lemma strings_Split_no_sep: "w \<in> set (strings_Split s sep) \<Longrightarrow> sep \<notin> set w"
  by (induction s arbitrary: w) (auto split: if_splits list.splits)

lemma strings_Split_join: "concat (map ((#) sep) (strings_Split s sep)) = sep # s"
  by (induction s) (auto split: list.splits)

text \<open>
  C9. The Kafka list after lines 57 to 62 is the list before them followed by the
  non-empty pieces of the \<open>-k\<close> string between commas, in order, and nothing else in the
  state changes. So what is appended never holds an empty address; an empty \<open>-k\<close> string
  leaves the list as it was; and the empty string is the default of \<open>-k\<close>.
\<close>

theorem kafka_addresses_nonempty_only:
  "kafka_addresses s =
     s\<lparr>Conf := (Conf s)\<lparr>Kafka := Kafka (Conf s) @
         filter (\<lambda>addr. addr \<noteq> []) (strings_Split (addrs s) CHR '','')\<rparr>\<rparr>
   \<and> (\<exists>new. Kafka (Conf (kafka_addresses s)) = Kafka (Conf s) @ new \<and> [] \<notin> set new)
   \<and> Kafka (Conf (kafka_addresses (s\<lparr>addrs := []\<rparr>))) = Kafka (Conf s)
   \<and> addrs (flag_vars env s) = []"
proof -
  have "Kafka (Conf (kafka_addresses s)) = Kafka (Conf s) @
          filter (\<lambda>addr. addr \<noteq> []) (strings_Split (addrs s) CHR '','')"
    by (simp add: kafka_addresses_eq)
  moreover have "[] \<notin> set (filter (\<lambda>addr. addr \<noteq> []) (strings_Split (addrs s) CHR '',''))"
    by simp
  ultimately have "\<exists>new. Kafka (Conf (kafka_addresses s)) = Kafka (Conf s) @ new \<and> [] \<notin> set new"
    by blast
  then show ?thesis
    by (simp add: kafka_addresses_eq flag_vars_def)
qed

end
